theory Spec2Isabelle
  imports Complex_Main
begin

section \<open>Orders, errors and the collaborators of the order executor\<close>

text \<open>
  The development embeds the two strategy engines of the repository
  (\<^verbatim>\<open>pkg/strategy/drift/strategy.go\<close> and the elliottwave strategy) and the shared
  \<^verbatim>\<open>GeneralOrderExecutor\<close>. Prices and quantities (\<^verbatim>\<open>float64\<close> and
  \<^verbatim>\<open>fixedpoint.Value\<close> in the source) are exact real numbers here: rounding is not
  part of the model. Where the source divides \<^verbatim>\<open>float64\<close> values the division by
  zero of IEEE arithmetic is written out.
\<close>

datatype SideType = SideTypeBuy | SideTypeSell | SideTypeOther

datatype OrderType = OrderTypeLimit | OrderTypeMarket

datatype OrderStatus =
  OrderStatusNew | OrderStatusPartiallyFilled | OrderStatusFilled
  | OrderStatusCanceled | OrderStatusRejected

record SubmitOrder =
  Side :: SideType
  Type :: OrderType
  Price :: real
  Quantity :: real
  Tag :: string

text \<open>\<^verbatim>\<open>types.Order\<close> embeds the submitted order and adds the identifier and the status.\<close>

record Order = SubmitOrder +
  OrderID :: nat
  Status :: OrderStatus

datatype error =
  ExchangeError string
  | Wrapped string error
  | MultiError error error
  | Panic string

text \<open>\<^verbatim>\<open>multierr.Append\<close>: nil is the unit, two errors are combined.\<close>

fun multierr_Append :: "error option \<Rightarrow> error option \<Rightarrow> error option" where
  "multierr_Append None r = r"
| "multierr_Append (Some l) None = Some l"
| "multierr_Append (Some l) (Some r) = Some (MultiError l r)"

text \<open>
  The collaborators whose code is not part of the two source files are parameters. Every
  request carries the number of requests issued before it, so a collaborator may answer
  the same request differently the second time.
\<close>

record Exchange =
  Exchange_CancelOrders :: "nat \<Rightarrow> Order list \<Rightarrow> error option"
  cancelAll :: "nat \<Rightarrow> Order list \<Rightarrow> error option \<times> Order list"
  cancelOne :: "nat \<Rightarrow> Order list \<Rightarrow> Order \<Rightarrow> error option"
  FormatOrders :: "SubmitOrder list \<Rightarrow> error + SubmitOrder list"
  BatchPlaceOrder :: "nat \<Rightarrow> SubmitOrder list \<Rightarrow> Order list \<times> nat list \<times> error option"
  BatchRetryPlaceOrder :: "nat \<Rightarrow> nat list \<Rightarrow> SubmitOrder list \<Rightarrow> Order list \<times> error option"

text \<open>
  Modelled from the spec: the Order Ledger (\<^verbatim>\<open>ActiveOrderBook\<close>, \<^verbatim>\<open>OrderStore\<close>),
  whose code is not among the source files. \<^verbatim>\<open>Add(orders...)\<close> is idempotent by order
  id; a successful graceful cancel removes the ledger's entries, a failed one leaves
  whatever the exchange did not cancel; a successful cancel of one order removes it.
\<close>

definition Add :: "Order list \<Rightarrow> Order list \<Rightarrow> Order list" where
  "Add book orders =
     foldl (\<lambda>b ord. if OrderID ord \<in> OrderID ` set b then b else b @ [ord]) book orders"

definition NumOfOrders :: "Order list \<Rightarrow> nat" where
  "NumOfOrders book = length book"

definition ActiveOrderBook_GracefulCancel ::
    "Exchange \<Rightarrow> nat \<Rightarrow> Order list \<Rightarrow> error option \<times> Order list" where
  "ActiveOrderBook_GracefulCancel ex n book =
     (case cancelAll ex n book of
        (None, _) \<Rightarrow> (None, [])
      | (Some err, rest) \<Rightarrow> (Some err, rest))"

definition ActiveOrderBook_Cancel ::
    "Exchange \<Rightarrow> nat \<Rightarrow> Order list \<Rightarrow> Order \<Rightarrow> error option \<times> Order list" where
  "ActiveOrderBook_Cancel ex n book ord =
     (case cancelOne ex n book ord of
        None \<Rightarrow> (None, filter (\<lambda>b. OrderID b \<noteq> OrderID ord) book)
      | Some err \<Rightarrow> (Some err, book))"

section \<open>The general order executor\<close>

text \<open>
  The executor's state: the two ledgers, the number of times the trade collector was
  pumped (\<^verbatim>\<open>tradeCollector.Process()\<close>), the number of requests issued to the
  collaborators so far, and a history of the calls made to the executor's own operations
  (with the error each cancel returned), which only the theorems read.
\<close>

datatype Request =
  ReqSubmitOrders "SubmitOrder list"
  | ReqGracefulCancel "error option"
  | ReqGracefulCancelOrder Order "error option"
  | ReqCancelOrders "Order list"

text \<open>An entry submission: a call of \<^verbatim>\<open>SubmitOrders\<close> with an order tagged long or short.\<close>

definition isEntry :: "Request \<Rightarrow> bool" where
  "isEntry r =
     (case r of
        ReqSubmitOrders orders \<Rightarrow> (\<exists>ord \<in> set orders. Tag ord = ''long'' \<or> Tag ord = ''short'')
      | _ \<Rightarrow> False)"

record GeneralOrderExecutor =
  activeMakerOrders :: "Order list"
  orderStore :: "Order list"
  processCount :: nat
  calls :: nat
  requests :: "Request list"

definition CancelOrders ::
    "Exchange \<Rightarrow> GeneralOrderExecutor \<Rightarrow> Order list \<Rightarrow> error option \<times> GeneralOrderExecutor" where
  "CancelOrders ex e0 orders =
     (let e = e0\<lparr>requests := requests e0 @ [ReqCancelOrders orders]\<rparr> in
      case Exchange_CancelOrders ex (calls e) orders of
        None \<Rightarrow> (None, e\<lparr>calls := calls e + 1\<rparr>)
      | Some err \<Rightarrow>
          (Exchange_CancelOrders ex (calls e + 1) orders, e\<lparr>calls := calls e + 2\<rparr>))"

definition SubmitOrders ::
    "Exchange \<Rightarrow> GeneralOrderExecutor \<Rightarrow> SubmitOrder list
      \<Rightarrow> (Order list \<times> error option) \<times> GeneralOrderExecutor" where
  "SubmitOrders ex e0 submitOrders =
     (let e = e0\<lparr>requests := requests e0 @ [ReqSubmitOrders submitOrders]\<rparr> in
      case FormatOrders ex submitOrders of
        Inl err \<Rightarrow> (([], Some err), e)
      | Inr formattedOrders \<Rightarrow>
          (case BatchPlaceOrder ex (calls e) formattedOrders of
             (createdOrders, errIdx, err) \<Rightarrow>
               (let e1 = e\<lparr>calls := calls e + 1\<rparr>;
                    (created, err', e2) =
                      (if length errIdx > 0 then
                         (case BatchRetryPlaceOrder ex (calls e1) errIdx formattedOrders of
                            (createdOrders2, err2) \<Rightarrow>
                              (if err2 \<noteq> None
                               then (createdOrders, multierr_Append err err2,
                                     e1\<lparr>calls := calls e1 + 1\<rparr>)
                               else (createdOrders @ createdOrders2, err,
                                     e1\<lparr>calls := calls e1 + 1\<rparr>)))
                       else (createdOrders, err, e1))
                in ((created, err'),
                    e2\<lparr>orderStore := Add (orderStore e2) created,
                       activeMakerOrders := Add (activeMakerOrders e2) created,
                       processCount := processCount e2 + 1\<rparr>))))"

definition GracefulCancelActiveOrderBook ::
    "Exchange \<Rightarrow> GeneralOrderExecutor \<Rightarrow> Order list
      \<Rightarrow> (error option \<times> Order list) \<times> GeneralOrderExecutor" where
  "GracefulCancelActiveOrderBook ex e activeOrders =
     (if NumOfOrders activeOrders = 0 then ((None, activeOrders), e)
      else
        (case ActiveOrderBook_GracefulCancel ex (calls e) activeOrders of
           (None, book1) \<Rightarrow>
             ((None, book1), e\<lparr>calls := calls e + 1, processCount := processCount e + 1\<rparr>)
         | (Some err, book1) \<Rightarrow>
             (case ActiveOrderBook_GracefulCancel ex (calls e + 1) book1 of
                (None, book2) \<Rightarrow>
                  ((None, book2),
                   e\<lparr>calls := calls e + 2, processCount := processCount e + 1\<rparr>)
              | (Some err2, book2) \<Rightarrow>
                  ((Some (Wrapped ''graceful cancel order error'' err2), book2),
                   e\<lparr>calls := calls e + 2\<rparr>))))"

definition GracefulCancel ::
    "Exchange \<Rightarrow> GeneralOrderExecutor \<Rightarrow> error option \<times> GeneralOrderExecutor" where
  "GracefulCancel ex e =
     (case GracefulCancelActiveOrderBook ex e (activeMakerOrders e) of
        ((err, book), e') \<Rightarrow>
          (err, e'\<lparr>activeMakerOrders := book,
                   requests := requests e' @ [ReqGracefulCancel err]\<rparr>))"

definition GracefulCancelOrder ::
    "Exchange \<Rightarrow> GeneralOrderExecutor \<Rightarrow> Order \<Rightarrow> error option \<times> GeneralOrderExecutor" where
  "GracefulCancelOrder ex e ord =
     (case
        (if NumOfOrders (activeMakerOrders e) = 0 then (None, e)
         else
           (case ActiveOrderBook_Cancel ex (calls e) (activeMakerOrders e) ord of
              (None, book1) \<Rightarrow>
                (None, e\<lparr>activeMakerOrders := book1, calls := calls e + 1,
                         processCount := processCount e + 1\<rparr>)
            | (Some err, book1) \<Rightarrow>
                (case ActiveOrderBook_Cancel ex (calls e + 1) book1 ord of
                   (None, book2) \<Rightarrow>
                     (None, e\<lparr>activeMakerOrders := book2, calls := calls e + 2,
                              processCount := processCount e + 1\<rparr>)
                 | (Some err2, book2) \<Rightarrow>
                     (Some (Wrapped ''cancel order error'' err2),
                      e\<lparr>activeMakerOrders := book2, calls := calls e + 2\<rparr>))))
      of (err, e') \<Rightarrow> (err, e'\<lparr>requests := requests e' @ [ReqGracefulCancelOrder ord err]\<rparr>))"


section \<open>Market, position and strategy state\<close>

text \<open>
  Modelled from the spec: \<^verbatim>\<open>types.Market.IsDustQuantity\<close>, whose code is not among the
  source files. The glossary defines dust as a quantity whose notional value (quantity
  times price) is below the market's minimum tradeable amount.
\<close>

record Market =
  MinNotional :: real

definition IsDustQuantity :: "Market \<Rightarrow> real \<Rightarrow> real \<Rightarrow> bool" where
  "IsDustQuantity m quantity price = (quantity * price < MinNotional m)"

record Position =
  Base :: real
  Quote :: real
  AverageCost :: real

record Trade =
  trade_OrderID :: nat
  trade_Side :: SideType
  trade_Price :: real
  trade_Quantity :: real

text \<open>
  The methods of \<^verbatim>\<open>types.Position\<close> are not among the source files either; the
  strategies receive them as parameters.
\<close>

record PositionMethods =
  AddTrade :: "Position \<Rightarrow> Trade \<Rightarrow> Position"
  IsDust :: "Position \<Rightarrow> real \<Rightarrow> bool"
  IsLong :: "Position \<Rightarrow> bool"
  IsShort :: "Position \<Rightarrow> bool"
  Reset :: "Position \<Rightarrow> Position"
  NewMarketCloseOrder :: "Position \<Rightarrow> real \<Rightarrow> SubmitOrder option"

text \<open>
  The fields of the two \<^verbatim>\<open>Strategy\<close> structs that the order life cycle reads or
  writes. \<open>position\<close> is the embedded, persisted \<^verbatim>\<open>*types.Position\<close>; \<open>shadow\<close> is
  drift's field \<^verbatim>\<open>p\<close>, the position the strategy keeps for itself. The executor is the
  embedded \<^verbatim>\<open>*bbgo.GeneralOrderExecutor\<close>. Locks are not part of the model.
\<close>

record Strategy =
  position :: Position
  shadow :: Position
  market :: Market
  running :: bool
  buyPrice :: real
  sellPrice :: real
  highestPrice :: real
  lowestPrice :: real
  TrailingCallbackRate :: "real list"
  TrailingActivationRatio :: "real list"
  StopLoss :: real
  NoTrailingStopLoss :: bool
  TrailingStopLossType :: string
  PendingMinutes :: int
  PredictOffset :: int
  minutesCounter :: int
  orderPendingCounter :: "nat \<rightharpoonup> int"
  HighLowVarianceMultiplier :: real
  NoRebalance :: bool
  RebalanceFilter :: real
  beta :: real
  DriftFilterNeg :: real
  DriftFilterPos :: real
  DDriftFilterNeg :: real
  DDriftFilterPos :: real
  executor :: GeneralOrderExecutor

text \<open>Reading a Go map at a missing key gives the zero value.\<close>

definition counterOf :: "(nat \<rightharpoonup> int) \<Rightarrow> nat \<Rightarrow> int" where
  "counterOf m k = (case m k of None \<Rightarrow> 0 | Some v \<Rightarrow> v)"

text \<open>
  What a handler reads from its collaborators while it runs: the bar, the last price
  (\<^verbatim>\<open>getLastPrice()\<close>), the indicators' values, the account balances and whether the
  balance lookup succeeded.
\<close>

record Bar =
  kline_Open :: real
  kline_Close :: real
  kline_High :: real
  kline_Low :: real
  lastPrice :: real
  source :: real
  atr_Last :: real
  stdevHigh_Last :: real
  stdevLow_Last :: real
  drift_Array :: "real list"
  ddrift_Array :: "real list"
  drift1m_Array :: "real list"
  driftPred :: real
  ddriftPred :: real
  ewo_Array :: "real list"
  trend_beta :: real
  baseAvailable :: real
  quoteAvailable :: real
  baseTotal :: real
  quoteTotal :: real
  baseOk :: bool
  quoteOk :: bool

section \<open>Trailing stop\<close>

text \<open>
  \<^verbatim>\<open>a / b > c\<close> on \<^verbatim>\<open>float64\<close>: dividing by zero gives \<^verbatim>\<open>+Inf\<close>, \<^verbatim>\<open>-Inf\<close> or
  \<^verbatim>\<open>NaN\<close> (for a positive, negative or zero numerator), and only \<^verbatim>\<open>+Inf\<close> is greater
  than a finite \<open>c\<close>.
\<close>

definition fdiv_gt :: "real \<Rightarrow> real \<Rightarrow> real \<Rightarrow> bool" where
  "fdiv_gt a b c = (if b = 0 then 0 < a else c < a / b)"

text \<open>
  The loop of \<^verbatim>\<open>trailingCheck\<close>: \<open>scanTiers s price isShort n\<close> runs it from index
  \<open>n - 1\<close> down to \<open>0\<close>. Reading \<^verbatim>\<open>TrailingActivationRatio[i]\<close> beyond the slice's end
  panics.
\<close>

fun scanTiers :: "Strategy \<Rightarrow> real \<Rightarrow> bool \<Rightarrow> nat \<Rightarrow> error + bool" where
  "scanTiers s price isShort 0 = Inr False"
| "scanTiers s price isShort (Suc i) =
     (if length (TrailingActivationRatio s) \<le> i then Inl (Panic ''index out of range'')
      else
        (let trailingCallbackRate = TrailingCallbackRate s ! i;
             trailingActivationRatio = TrailingActivationRatio s ! i
         in if isShort then
              (if fdiv_gt (sellPrice s - lowestPrice s) (lowestPrice s) trailingActivationRatio
               then Inr (fdiv_gt (price - lowestPrice s) (lowestPrice s) trailingCallbackRate)
               else scanTiers s price isShort i)
            else
              (if fdiv_gt (highestPrice s - buyPrice s) (buyPrice s) trailingActivationRatio
               then Inr (fdiv_gt (highestPrice s - price) price trailingCallbackRate)
               else scanTiers s price isShort i)))"

definition trailingCheck :: "Strategy \<Rightarrow> real \<Rightarrow> string \<Rightarrow> error + (bool \<times> Strategy)" where
  "trailingCheck s price direction =
     (let s1 = (if highestPrice s > 0 \<and> highestPrice s < price
                then s\<lparr>highestPrice := price\<rparr> else s);
          s2 = (if lowestPrice s1 > 0 \<and> lowestPrice s1 > price
                then s1\<lparr>lowestPrice := price\<rparr> else s1);
          isShort = (direction = ''short'')
      in case scanTiers s2 price isShort (length (TrailingCallbackRate s2)) of
           Inl err \<Rightarrow> Inl err
         | Inr fired \<Rightarrow> Inr (fired, s2))"

text \<open>
  The claim's reading of \<^verbatim>\<open>trailingCheck\<close>, written from its words: the tiers whose
  activation ratio is exceeded by the favourable excursion, the highest index first; the
  first of them decides by its callback rate, and no such tier means no trigger.
\<close>

definition activated :: "Strategy \<Rightarrow> bool \<Rightarrow> nat \<Rightarrow> bool" where
  "activated s isShort i =
     (if isShort
      then fdiv_gt (sellPrice s - lowestPrice s) (lowestPrice s) (TrailingActivationRatio s ! i)
      else fdiv_gt (highestPrice s - buyPrice s) (buyPrice s) (TrailingActivationRatio s ! i))"

definition retraced :: "Strategy \<Rightarrow> real \<Rightarrow> bool \<Rightarrow> nat \<Rightarrow> bool" where
  "retraced s price isShort i =
     (if isShort
      then fdiv_gt (price - lowestPrice s) (lowestPrice s) (TrailingCallbackRate s ! i)
      else fdiv_gt (highestPrice s - price) price (TrailingCallbackRate s ! i))"

definition trailing_spec :: "Strategy \<Rightarrow> real \<Rightarrow> bool \<Rightarrow> bool" where
  "trailing_spec s price isShort =
     (case filter (activated s isShort) (rev [0..<length (TrailingCallbackRate s)]) of
        [] \<Rightarrow> False
      | i # _ \<Rightarrow> retraced s price isShort i)"

text \<open>
  The watermark update that the handlers repeat before they evaluate their exits
  (\<^verbatim>\<open>klineHandler1m\<close>, \<^verbatim>\<open>klineHandler\<close> and drift's book ticker callback).
\<close>

definition updateWatermarks :: "Strategy \<Rightarrow> real \<Rightarrow> real \<Rightarrow> Strategy" where
  "updateWatermarks s lowf highf =
     (let s1 = (if lowestPrice s > 0 \<and> lowf < lowestPrice s
                then s\<lparr>lowestPrice := lowf\<rparr> else s)
      in if highestPrice s1 > 0 \<and> highf > highestPrice s1
         then s1\<lparr>highestPrice := highf\<rparr> else s1)"

section \<open>Closing a position\<close>

definition drift_Delta :: real where
  "drift_Delta = 0.01"

definition elliottwave_Delta :: real where
  "elliottwave_Delta = 0.00001"

text \<open>
  The \<^verbatim>\<open>for\<close> loop of the strategies' \<^verbatim>\<open>ClosePosition\<close>. It has no bound of its own,
  so not returning is the value \<open>None\<close>.
\<close>

partial_function (option) ClosePosition_loop ::
    "Exchange \<Rightarrow> Market \<Rightarrow> real \<Rightarrow> real \<Rightarrow> SubmitOrder \<Rightarrow> GeneralOrderExecutor
      \<Rightarrow> (error option \<times> GeneralOrderExecutor) option" where
  "ClosePosition_loop ex m delta price order e =
     (if IsDustQuantity m (Quantity order) price then Some (None, e)
      else
        (let r = SubmitOrders ex e [order] in
         if snd (fst r) \<noteq> None
         then ClosePosition_loop ex m delta price
                (order\<lparr>Quantity := Quantity order * (1 - delta)\<rparr>) (snd r)
         else Some (None, snd r)))"

declare ClosePosition_loop.simps [code]

text \<open>
  The body of \<^verbatim>\<open>ClosePosition\<close> up to the loop: the order of
  \<^verbatim>\<open>NewMarketCloseOrder\<close>, tagged, with its quantity clamped to the available balance.
\<close>

definition clampCloseOrder :: "Bar \<Rightarrow> SubmitOrder \<Rightarrow> SubmitOrder" where
  "clampCloseOrder bar order0 =
     (let order = order0\<lparr>Tag := ''close''\<rparr>;
          baseBalance = baseAvailable bar;
          price = lastPrice bar
      in if Side order = SideTypeBuy then
           (let quoteAmount = quoteAvailable bar / price
            in if Quantity order > quoteAmount then order\<lparr>Quantity := quoteAmount\<rparr> else order)
         else if Side order = SideTypeSell \<and> Quantity order > baseBalance
         then order\<lparr>Quantity := baseBalance\<rparr>
         else order)"

definition drift_ClosePosition ::
    "Exchange \<Rightarrow> PositionMethods \<Rightarrow> Bar \<Rightarrow> Strategy \<Rightarrow> real
      \<Rightarrow> (error option \<times> Strategy) option" where
  "drift_ClosePosition ex pm bar s percentage =
     (case NewMarketCloseOrder pm (shadow s) percentage of
        None \<Rightarrow> Some (None, s)
      | Some order0 \<Rightarrow>
          map_option (\<lambda>r. (fst r, s\<lparr>executor := snd r\<rparr>))
            (ClosePosition_loop ex (market s) drift_Delta (lastPrice bar)
               (clampCloseOrder bar order0) (executor s)))"

definition elliottwave_ClosePosition ::
    "Exchange \<Rightarrow> PositionMethods \<Rightarrow> Bar \<Rightarrow> Strategy \<Rightarrow> real
      \<Rightarrow> (error option \<times> Strategy) option" where
  "elliottwave_ClosePosition ex pm bar s percentage =
     (case NewMarketCloseOrder pm (position s) percentage of
        None \<Rightarrow> Some (None, s)
      | Some order0 \<Rightarrow>
          map_option (\<lambda>r. (fst r, s\<lparr>executor := snd r\<rparr>))
            (ClosePosition_loop ex (market s) elliottwave_Delta (lastPrice bar)
               (clampCloseOrder bar order0) (executor s)))"

section \<open>Cancelling stale orders\<close>

text \<open>
  The loop of drift's \<^verbatim>\<open>smartCancel\<close> over the outstanding orders; it computes
  \<^verbatim>\<open>toCancel\<close>. \<^verbatim>\<open>drift[1]\<close> is read only for an aged buy or sell order.
\<close>

fun drift_scanOrders ::
    "Strategy \<Rightarrow> Bar \<Rightarrow> real \<Rightarrow> Order list \<Rightarrow> bool \<Rightarrow> error + bool" where
  "drift_scanOrders s bar pricef [] toCancel = Inr toCancel"
| "drift_scanOrders s bar pricef (order # rest) toCancel =
     (if Status order \<noteq> OrderStatusNew \<and> Status order \<noteq> OrderStatusPartiallyFilled
      then drift_scanOrders s bar pricef rest toCancel
      else if minutesCounter s - counterOf (orderPendingCounter s) (OrderID order)
                > PendingMinutes s
      then
        (case Side order of
           SideTypeBuy \<Rightarrow>
             (if length (drift1m_Array bar) < 2 then Inl (Panic ''index out of range'')
              else if drift1m_Array bar ! 1 < drift1m_Array bar ! 0
              then drift_scanOrders s bar pricef rest toCancel
              else drift_scanOrders s bar pricef rest True)
         | SideTypeSell \<Rightarrow>
             (if length (drift1m_Array bar) < 2 then Inl (Panic ''index out of range'')
              else if drift1m_Array bar ! 1 > drift1m_Array bar ! 0
              then drift_scanOrders s bar pricef rest toCancel
              else drift_scanOrders s bar pricef rest True)
         | SideTypeOther \<Rightarrow> drift_scanOrders s bar pricef rest True)
      else
        (case Side order of
           SideTypeBuy \<Rightarrow>
             (if Price order + stdevHigh_Last bar * 2 \<le> pricef
              then drift_scanOrders s bar pricef rest True
              else drift_scanOrders s bar pricef rest toCancel)
         | SideTypeSell \<Rightarrow>
             (if Price order - stdevLow_Last bar * 2 \<ge> pricef
              then drift_scanOrders s bar pricef rest True
              else drift_scanOrders s bar pricef rest toCancel)
         | SideTypeOther \<Rightarrow> Inl (Panic ''not supported side for the order'')))"

definition deleteAll :: "(nat \<rightharpoonup> int) \<Rightarrow> Order list \<Rightarrow> (nat \<rightharpoonup> int)" where
  "deleteAll m orders = foldl (\<lambda>c ord. c(OrderID ord := None)) m orders"

definition drift_smartCancel ::
    "Exchange \<Rightarrow> Bar \<Rightarrow> Strategy \<Rightarrow> real \<Rightarrow> real
      \<Rightarrow> error + ((nat \<times> error option) \<times> Strategy)" where
  "drift_smartCancel ex bar s pricef atr =
     (let nonTraded = activeMakerOrders (executor s) in
      if length nonTraded > 0 then
        (case drift_scanOrders s bar pricef nonTraded False of
           Inl err \<Rightarrow> Inl err
         | Inr toCancel \<Rightarrow>
             if toCancel then
               (case GracefulCancel ex (executor s) of
                  (None, e') \<Rightarrow>
                    Inr ((0, None),
                         s\<lparr>executor := e',
                           orderPendingCounter := deleteAll (orderPendingCounter s) nonTraded\<rparr>)
                | (Some err, e') \<Rightarrow> Inr ((0, Some err), s\<lparr>executor := e'\<rparr>))
             else Inr ((length nonTraded, None), s))
      else Inr ((length nonTraded, None), s))"

text \<open>
  The loop of elliottwave's \<^verbatim>\<open>smartCancel\<close>: every order is cancelled on its own, and
  \<^verbatim>\<open>left\<close> counts the orders that stay.
\<close>

fun elliottwave_scanOrders ::
    "Exchange \<Rightarrow> Bar \<Rightarrow> real \<Rightarrow> Order list \<Rightarrow> Strategy \<Rightarrow> nat
      \<Rightarrow> error + (nat \<times> Strategy)" where
  "elliottwave_scanOrders ex bar pricef [] s left = Inr (left, s)"
| "elliottwave_scanOrders ex bar pricef (order # rest) s left =
     (if Status order \<noteq> OrderStatusNew \<and> Status order \<noteq> OrderStatusPartiallyFilled
      then elliottwave_scanOrders ex bar pricef rest s left
      else
        (case
           (if minutesCounter s - counterOf (orderPendingCounter s) (OrderID order)
                 \<ge> PendingMinutes s
            then Inr True
            else
              (case Side order of
                 SideTypeBuy \<Rightarrow> Inr (Price order + atr_Last bar * 2 \<le> pricef)
               | SideTypeSell \<Rightarrow> Inr (Price order - atr_Last bar * 2 \<ge> pricef)
               | SideTypeOther \<Rightarrow> Inl (Panic ''not supported side for the order'')))
         of
           Inl err \<Rightarrow> Inl err
         | Inr toCancel \<Rightarrow>
             if toCancel then
               (case GracefulCancelOrder ex (executor s) order of
                  (None, e') \<Rightarrow>
                    elliottwave_scanOrders ex bar pricef rest
                      (s\<lparr>executor := e',
                         orderPendingCounter := (orderPendingCounter s)(OrderID order := None)\<rparr>)
                      left
                | (Some err, e') \<Rightarrow>
                    elliottwave_scanOrders ex bar pricef rest (s\<lparr>executor := e'\<rparr>) left)
             else elliottwave_scanOrders ex bar pricef rest s (left + 1)))"

definition elliottwave_smartCancel ::
    "Exchange \<Rightarrow> Bar \<Rightarrow> Strategy \<Rightarrow> real \<Rightarrow> error + (nat \<times> Strategy)" where
  "elliottwave_smartCancel ex bar s pricef =
     (let nonTraded = activeMakerOrders (executor s) in
      if length nonTraded > 0
      then elliottwave_scanOrders ex bar pricef nonTraded s 0
      else Inr (length nonTraded, s))"

section \<open>The fill handlers\<close>

text \<open>
  The callbacks registered with \<^verbatim>\<open>TradeCollector().OnTrade\<close>. The profit series they
  feed are statistics and are left out. \<^verbatim>\<open>OrderStore().Get\<close> looks the order up by id.
\<close>

definition resetPrices :: "Strategy \<Rightarrow> Strategy" where
  "resetPrices s = s\<lparr>buyPrice := 0, sellPrice := 0, highestPrice := 0, lowestPrice := 0\<rparr>"

definition setLong :: "Strategy \<Rightarrow> real \<Rightarrow> Strategy" where
  "setLong s price =
     s\<lparr>buyPrice := price, sellPrice := 0, highestPrice := price, lowestPrice := 0\<rparr>"

definition setShort :: "Strategy \<Rightarrow> real \<Rightarrow> Strategy" where
  "setShort s price =
     s\<lparr>sellPrice := price, buyPrice := 0, highestPrice := 0, lowestPrice := price\<rparr>"

definition drift_OnTrade :: "PositionMethods \<Rightarrow> Strategy \<Rightarrow> Trade \<Rightarrow> error + Strategy" where
  "drift_OnTrade pm s0 trade =
     (let s = s0\<lparr>shadow := AddTrade pm (shadow s0) trade\<rparr> in
      case find (\<lambda>ord. OrderID ord = trade_OrderID trade) (orderStore (executor s)) of
        None \<Rightarrow> Inl (Panic ''cannot find order'')
      | Some order \<Rightarrow>
          (let tag = Tag order; price = trade_Price trade in
           if tag = ''close'' \<or> tag = [] then
             (if IsDust pm (shadow s) (trade_Price trade) then Inr (resetPrices s)
              else if IsLong pm (shadow s) then Inr (setLong s price)
              else Inr (setShort s price))
           else if tag = ''long'' then
             (if IsDust pm (shadow s) (trade_Price trade) then Inr (resetPrices s)
              else if IsLong pm (shadow s) then Inr (setLong s price)
              else Inr s)
           else if tag = ''short'' then
             (if IsDust pm (shadow s) (trade_Price trade) then Inr (resetPrices s)
              else if IsShort pm (shadow s) then Inr (setShort s price)
              else Inr s)
           else Inl (Panic ''tag unknown'')))"

text \<open>
  In elliottwave the trade collector has updated \<open>position\<close> before the callback runs.
\<close>

definition elliottwave_OnTrade :: "PositionMethods \<Rightarrow> Strategy \<Rightarrow> Trade \<Rightarrow> Strategy" where
  "elliottwave_OnTrade pm s trade =
     (let price = trade_Price trade in
      if IsDust pm (position s) (trade_Price trade) then resetPrices s
      else if IsLong pm (position s) then setLong s price
      else setShort s price)"

section \<open>The bar-close handlers\<close>


text \<open>
  The two assignments \<^verbatim>\<open>exitShortCondition := ...\<close> and \<^verbatim>\<open>exitLongCondition := ...\<close>
  of each handler, in the source's order and with Go's precedence (\<^verbatim>\<open>&&\<close> binds
  tighter than \<^verbatim>\<open>||\<close>) and short-circuit evaluation: \<^verbatim>\<open>trailingCheck\<close>, which
  moves the watermarks, runs only when the operands before it leave the result open.
\<close>

definition drift_klineHandler1m_exits ::
    "Strategy \<Rightarrow> real \<Rightarrow> real \<Rightarrow> real \<Rightarrow> error + ((bool \<times> bool) \<times> Strategy)" where
  "drift_klineHandler1m_exits s stoploss lowf highf =
     (case
        (if sellPrice s > 0
         then (if sellPrice s * (1 + stoploss) \<le> highf then Inr (True, s)
               else trailingCheck s highf ''short'')
         else Inr (False, s))
      of
        Inl err \<Rightarrow> Inl err
      | Inr (exitShortCondition, s1) \<Rightarrow>
          (case
             (if buyPrice s1 > 0
              then (if buyPrice s1 * (1 - stoploss) \<ge> lowf then Inr (True, s1)
                    else trailingCheck s1 lowf ''long'')
              else Inr (False, s1))
           of
             Inl err \<Rightarrow> Inl err
           | Inr (exitLongCondition, s2) \<Rightarrow>
               Inr ((exitShortCondition, exitLongCondition), s2)))"

definition drift_klineHandler_exits ::
    "Strategy \<Rightarrow> real \<Rightarrow> bool \<Rightarrow> bool \<Rightarrow> real \<Rightarrow> real \<Rightarrow> real
      \<Rightarrow> error + ((bool \<times> bool) \<times> Strategy)" where
  "drift_klineHandler_exits s stoploss shortCondition longCondition lowf highf pricef =
     (case
        (if sellPrice s > 0 \<and> \<not> shortCondition \<and> \<not> longCondition
         then (if sellPrice s * (1 + stoploss) \<le> highf then Inr (True, s)
               else trailingCheck s pricef ''short'')
         else Inr (False, s))
      of
        Inl err \<Rightarrow> Inl err
      | Inr (exitShortCondition, s1) \<Rightarrow>
          (case
             (if buyPrice s1 > 0 \<and> \<not> longCondition \<and> \<not> shortCondition
              then (if buyPrice s1 * (1 - stoploss) \<ge> lowf then Inr (True, s1)
                    else trailingCheck s1 pricef ''long'')
              else Inr (False, s1))
           of
             Inl err \<Rightarrow> Inl err
           | Inr (exitLongCondition, s2) \<Rightarrow>
               Inr ((exitShortCondition, exitLongCondition), s2)))"

definition elliottwave_klineHandler1m_exits ::
    "Strategy \<Rightarrow> real \<Rightarrow> real \<Rightarrow> real \<Rightarrow> real \<Rightarrow> error + ((bool \<times> bool) \<times> Strategy)" where
  "elliottwave_klineHandler1m_exits s stoploss atr lowf highf =
     (case
        (if sellPrice s > 0
         then (if sellPrice s * (1 + stoploss) \<le> highf \<or> sellPrice s + atr \<le> highf
               then Inr (True, s)
               else trailingCheck s highf ''short'')
         else Inr (False, s))
      of
        Inl err \<Rightarrow> Inl err
      | Inr (exitShortCondition, s1) \<Rightarrow>
          (case
             (if buyPrice s1 > 0
              then (if buyPrice s1 * (1 - stoploss) \<ge> lowf \<or> buyPrice s1 - atr \<ge> lowf
                    then Inr (True, s1)
                    else trailingCheck s1 lowf ''long'')
              else Inr (False, s1))
           of
             Inl err \<Rightarrow> Inl err
           | Inr (exitLongCondition, s2) \<Rightarrow>
               Inr ((exitShortCondition, exitLongCondition), s2)))"

definition elliottwave_klineHandler_exits ::
    "Strategy \<Rightarrow> real \<Rightarrow> real \<Rightarrow> bool \<Rightarrow> bool \<Rightarrow> real \<Rightarrow> real
      \<Rightarrow> error + ((bool \<times> bool) \<times> Strategy)" where
  "elliottwave_klineHandler_exits s stoploss atr shortCondition longCondition lowf highf =
     (case
        (if (sellPrice s > 0 \<and> \<not> shortCondition \<and> sellPrice s * (1 + stoploss) \<le> highf)
            \<or> sellPrice s + atr \<le> highf
         then Inr (True, s)
         else trailingCheck s highf ''short'')
      of
        Inl err \<Rightarrow> Inl err
      | Inr (exitShortCondition, s1) \<Rightarrow>
          (case
             (if (buyPrice s1 > 0 \<and> \<not> longCondition \<and> buyPrice s1 * (1 - stoploss) \<ge> lowf)
                 \<or> buyPrice s1 - atr \<ge> lowf
              then Inr (True, s1)
              else trailingCheck s1 lowf ''long'')
           of
             Inl err \<Rightarrow> Inl err
           | Inr (exitLongCondition, s2) \<Rightarrow>
               Inr ((exitShortCondition, exitLongCondition), s2)))"

text \<open>
  The end of every entry block: the single order goes to \<^verbatim>\<open>SubmitOrders\<close>, and on
  success the bar index is stored under \<^verbatim>\<open>createdOrders[0].OrderID\<close> (a panic when no
  order came back).
\<close>

definition submitEntry :: "Exchange \<Rightarrow> Strategy \<Rightarrow> SubmitOrder \<Rightarrow> error + Strategy" where
  "submitEntry ex s order =
     (case SubmitOrders ex (executor s) [order] of
        ((createdOrders, err), e') \<Rightarrow>
          (let s1 = s\<lparr>executor := e'\<rparr> in
           if err \<noteq> None then Inr s1
           else
             (case createdOrders of
                [] \<Rightarrow> Inl (Panic ''index out of range'')
              | created # _ \<Rightarrow>
                  Inr (s1\<lparr>orderPendingCounter :=
                             (orderPendingCounter s1)(OrderID created \<mapsto> minutesCounter s1)\<rparr>))))"

definition drift_openLong :: "Exchange \<Rightarrow> Bar \<Rightarrow> Strategy \<Rightarrow> error + Strategy" where
  "drift_openLong ex bar s =
     (case GracefulCancel ex (executor s) of
        (Some err, e') \<Rightarrow> Inr (s\<lparr>executor := e'\<rparr>)
      | (None, e') \<Rightarrow>
          (let s1 = s\<lparr>executor := e'\<rparr>;
               price = lastPrice bar;
               source0 = source bar - stdevLow_Last bar * HighLowVarianceMultiplier s1;
               src = (if source0 > price then price else source0)
           in if \<not> quoteOk bar then Inr s1
              else if IsDustQuantity (market s1) (quoteAvailable bar / src) src then Inr s1
              else submitEntry ex s1
                     \<lparr>Side = SideTypeBuy, Type = OrderTypeLimit, Price = src,
                      Quantity = quoteAvailable bar / src, Tag = ''long''\<rparr>))"



definition elliottwave_openLong :: "Exchange \<Rightarrow> Bar \<Rightarrow> Strategy \<Rightarrow> error + Strategy" where
  "elliottwave_openLong ex bar s =
     (case GracefulCancel ex (executor s) of
        (Some err, e') \<Rightarrow> Inr (s\<lparr>executor := e'\<rparr>)
      | (None, e') \<Rightarrow>
          (let s1 = s\<lparr>executor := e'\<rparr>;
               price = lastPrice bar;
               src = (if source bar > price then price else source bar)
           in if \<not> quoteOk bar then Inr s1
              else if IsDustQuantity (market s1) (quoteAvailable bar / src) src then Inr s1
              else submitEntry ex s1
                     \<lparr>Side = SideTypeBuy, Type = OrderTypeLimit, Price = src,
                      Quantity = quoteAvailable bar / src, Tag = ''long''\<rparr>))"

definition elliottwave_openShort :: "Exchange \<Rightarrow> Bar \<Rightarrow> Strategy \<Rightarrow> error + Strategy" where
  "elliottwave_openShort ex bar s =
     (case GracefulCancel ex (executor s) of
        (Some err, e') \<Rightarrow> Inr (s\<lparr>executor := e'\<rparr>)
      | (None, e') \<Rightarrow>
          (let s1 = s\<lparr>executor := e'\<rparr>;
               price = lastPrice bar;
               src = (if source bar < price then price else source bar)
           in if \<not> baseOk bar then Inr s1
              else if IsDustQuantity (market s1) (baseAvailable bar) src then Inr s1
              else submitEntry ex s1
                     \<lparr>Side = SideTypeSell, Type = OrderTypeLimit, Price = src,
                      Quantity = baseAvailable bar, Tag = ''short''\<rparr>))"

definition elliottwave_enter ::
    "Exchange \<Rightarrow> Bar \<Rightarrow> Strategy \<Rightarrow> bool \<Rightarrow> bool \<Rightarrow> bool \<Rightarrow> error + Strategy" where
  "elliottwave_enter ex bar s longCondition shortCondition bull =
     (if longCondition \<and> bull then elliottwave_openLong ex bar s
      else if shortCondition \<and> \<not> bull then elliottwave_openShort ex bar s
      else Inr s)"


definition elliottwave_conditions :: "Bar \<Rightarrow> Strategy \<Rightarrow> bool \<times> bool" where
  "elliottwave_conditions bar s =
     (let ewo = ewo_Array bar
      in (ewo ! 0 < ewo ! 1 \<and> ewo ! 1 \<ge> ewo ! 2
            \<and> (ewo ! 1 \<le> ewo ! 2 \<or> ewo ! 2 \<ge> ewo ! 3)
          \<or> sellPrice s = 0 \<and> ewo ! 0 < ewo ! 1 \<and> ewo ! 1 < ewo ! 2,
          ewo ! 0 > ewo ! 1 \<and> ewo ! 1 \<le> ewo ! 2
            \<and> (ewo ! 1 \<ge> ewo ! 2 \<or> ewo ! 2 \<le> ewo ! 3)
          \<or> buyPrice s = 0 \<and> ewo ! 0 > ewo ! 1 \<and> ewo ! 1 > ewo ! 2))"

text \<open>
  The handlers, from the point where the indicators have been fed. A handler that does
  not return (its \<^verbatim>\<open>ClosePosition\<close> loops for ever) is \<open>None\<close>; a panic is \<open>Inl\<close>.
\<close>

definition drift_klineHandler1m ::
    "Exchange \<Rightarrow> PositionMethods \<Rightarrow> Bar \<Rightarrow> Strategy \<Rightarrow> (error + Strategy) option" where
  "drift_klineHandler1m ex pm bar s0 =
     (if \<not> running s0 then Some (Inr s0)
      else
        (let atr = atr_Last bar;
             pricef = lastPrice bar;
             stoploss = StopLoss s0;
             lowf = min (kline_Low bar) pricef;
             highf = max (kline_High bar) pricef;
             s = updateWatermarks s0 lowf highf
         in if length (drift1m_Array bar) < 2 then Some (Inr s)
            else
              (case drift_smartCancel ex bar s pricef atr of
                 Inl err \<Rightarrow> Some (Inl err)
               | Inr ((numPending, err), s1) \<Rightarrow>
                   if err \<noteq> None then Some (Inr s1)
                   else if numPending > 0 then Some (Inr s1)
                   else if NoTrailingStopLoss s1 \<or> TrailingStopLossType s1 = ''realtime''
                   then Some (Inr s1)
                   else
                     (case drift_klineHandler1m_exits s1 stoploss lowf highf of
                        Inl err \<Rightarrow> Some (Inl err)
                      | Inr ((exitShortCondition, exitLongCondition), s2) \<Rightarrow>
                          if exitShortCondition \<or> exitLongCondition
                          then map_option (\<lambda>r. Inr (snd r)) (drift_ClosePosition ex pm bar s2 1)
                          else Some (Inr s2)))))"


definition elliottwave_klineHandler1m ::
    "Exchange \<Rightarrow> PositionMethods \<Rightarrow> Bar \<Rightarrow> Strategy \<Rightarrow> (error + Strategy) option" where
  "elliottwave_klineHandler1m ex pm bar s0 =
     (if \<not> running s0 then Some (Inr s0)
      else
        (let stoploss = StopLoss s0;
             pricef = lastPrice bar;
             atr = atr_Last bar
         in case elliottwave_smartCancel ex bar s0 pricef of
              Inl err \<Rightarrow> Some (Inl err)
            | Inr (numPending, s1) \<Rightarrow>
                if numPending > 0 then Some (Inr s1)
                else
                  (let lowf = min (kline_Low bar) pricef;
                       highf = max (kline_High bar) pricef;
                       s2 = updateWatermarks s1 lowf highf
                   in case elliottwave_klineHandler1m_exits s2 stoploss atr lowf highf of
                        Inl err \<Rightarrow> Some (Inl err)
                      | Inr ((exitShortCondition, exitLongCondition), s3) \<Rightarrow>
                          if exitShortCondition \<or> exitLongCondition
                          then map_option (\<lambda>r. Inr (snd r))
                                 (elliottwave_ClosePosition ex pm bar s3 1)
                          else Some (Inr s3))))"

definition elliottwave_klineHandler ::
    "Exchange \<Rightarrow> PositionMethods \<Rightarrow> Bar \<Rightarrow> Strategy \<Rightarrow> (error + Strategy) option" where
  "elliottwave_klineHandler ex pm bar s0 =
     (if \<not> running s0 then Some (Inr s0)
      else
        (let stoploss = StopLoss s0;
             pricef = lastPrice bar;
             lowf = min (kline_Low bar) pricef;
             highf = min (kline_High bar) pricef
         in case elliottwave_smartCancel ex bar s0 pricef of
              Inl err \<Rightarrow> Some (Inl err)
            | Inr (numPending, s1) \<Rightarrow>
                (let atr = atr_Last bar; ewo = ewo_Array bar
                 in if length ewo < 4 then Some (Inr s1)
                    else
                      (let bull = (kline_Close bar > kline_Open bar);
                           shortCondition = fst (elliottwave_conditions bar s1);
                           longCondition = snd (elliottwave_conditions bar s1)
                       in case elliottwave_klineHandler_exits s1 stoploss atr
                                 shortCondition longCondition lowf highf of
                            Inl err \<Rightarrow> Some (Inl err)
                          | Inr ((exitShortCondition, exitLongCondition), s2) \<Rightarrow>
                              if exitShortCondition \<or> exitLongCondition then
                                (case GracefulCancel ex (executor s2) of
                                   (Some err, e') \<Rightarrow> Some (Inr (s2\<lparr>executor := e'\<rparr>))
                                 | (None, e') \<Rightarrow>
                                     (case elliottwave_ClosePosition ex pm bar
                                             (s2\<lparr>executor := e'\<rparr>) 1 of
                                        None \<Rightarrow> None
                                      | Some r \<Rightarrow>
                                          Some (elliottwave_enter ex bar (snd r)
                                                  longCondition shortCondition bull)))
                              else Some (elliottwave_enter ex bar s2
                                           longCondition shortCondition bull)))))"

section \<open>Concrete inputs\<close>

text \<open>The inputs at which the theorems below are evaluated.\<close>

definition emptyExecutor :: GeneralOrderExecutor where
  "emptyExecutor =
     \<lparr>activeMakerOrders = [], orderStore = [], processCount = 0, calls = 0, requests = []\<rparr>"

definition mkOrder :: "nat \<Rightarrow> SideType \<Rightarrow> real \<Rightarrow> real \<Rightarrow> string \<Rightarrow> Order" where
  "mkOrder n sd pr qty tg =
     \<lparr>Side = sd, Type = OrderTypeLimit, Price = pr, Quantity = qty, Tag = tg,
      OrderID = n, Status = OrderStatusNew\<rparr>"

definition mkSubmit :: "SideType \<Rightarrow> real \<Rightarrow> real \<Rightarrow> string \<Rightarrow> SubmitOrder" where
  "mkSubmit sd pr qty tg =
     \<lparr>Side = sd, Type = OrderTypeLimit, Price = pr, Quantity = qty, Tag = tg\<rparr>"

text \<open>An exchange that accepts every request; order \<open>n\<close> is created by request \<open>n\<close>.\<close>

definition okExchange :: Exchange where
  "okExchange =
     \<lparr>Exchange_CancelOrders = (\<lambda>n orders. None),
      cancelAll = (\<lambda>n book. (None, [])),
      cancelOne = (\<lambda>n book ord. None),
      FormatOrders = Inr,
      BatchPlaceOrder =
        (\<lambda>n orders.
           (map (\<lambda>so. \<lparr>Side = Side so, Type = Type so, Price = Price so,
                          Quantity = Quantity so, Tag = Tag so,
                          OrderID = n, Status = OrderStatusNew\<rparr>) orders, [], None)),
      BatchRetryPlaceOrder = (\<lambda>n idx orders. ([], None))\<rparr>"


text \<open>
  An exchange that accepts the first order of a batch of three and rejects the other
  two; on the retry it accepts the second order and rejects the third again.
\<close>

definition partialExchange :: Exchange where
  "partialExchange =
     \<lparr>Exchange_CancelOrders = (\<lambda>n orders. None),
      cancelAll = (\<lambda>n book. (None, [])),
      cancelOne = (\<lambda>n book ord. None),
      FormatOrders = Inr,
      BatchPlaceOrder =
        (\<lambda>n orders. ([mkOrder 1 SideTypeBuy 100 1 ''long''], [1, 2],
                       Some (ExchangeError ''rejected''))),
      BatchRetryPlaceOrder =
        (\<lambda>n idx orders. ([mkOrder 2 SideTypeBuy 99 1 ''long''],
                           Some (ExchangeError ''rejected again'')))\<rparr>"

definition threeOrders :: "SubmitOrder list" where
  "threeOrders =
     [mkSubmit SideTypeBuy 100 1 ''long'', mkSubmit SideTypeBuy 99 1 ''long'',
      mkSubmit SideTypeBuy 98 1 ''long'']"

text \<open>
  A position as the spec's data model describes it: long when the base quantity is
  positive, short when it is negative, dust when its value at the given price is below
  the minimum notional (here \<open>10\<close>). A fill adds to or takes from the base quantity.
\<close>

definition flatPosition :: Position where
  "flatPosition = \<lparr>Base = 0, Quote = 0, AverageCost = 0\<rparr>"

definition basePosition :: PositionMethods where
  "basePosition =
     \<lparr>AddTrade =
        (\<lambda>pos t. pos\<lparr>Base := Base pos + (if trade_Side t = SideTypeBuy
                                            then trade_Quantity t else - trade_Quantity t)\<rparr>),
      IsDust = (\<lambda>pos price. \<bar>Base pos\<bar> * price < 10),
      IsLong = (\<lambda>pos. Base pos > 0),
      IsShort = (\<lambda>pos. Base pos < 0),
      Reset = (\<lambda>pos. flatPosition),
      NewMarketCloseOrder =
        (\<lambda>pos percentage.
           if Base pos = 0 then None
           else Some \<lparr>Side = (if Base pos > 0 then SideTypeSell else SideTypeBuy),
                      Type = OrderTypeMarket, Price = 0,
                      Quantity = \<bar>Base pos\<bar> * percentage, Tag = []\<rparr>)\<rparr>"

text \<open>A running strategy with no position, no order and no trailing tier.\<close>

definition initStrategy :: Strategy where
  "initStrategy =
     \<lparr>position = flatPosition, shadow = flatPosition, market = \<lparr>MinNotional = 10\<rparr>,
      running = True, buyPrice = 0, sellPrice = 0, highestPrice = 0, lowestPrice = 0,
      TrailingCallbackRate = [], TrailingActivationRatio = [],
      StopLoss = 0.05, NoTrailingStopLoss = False, TrailingStopLossType = ''kline'',
      PendingMinutes = 10, PredictOffset = 2, minutesCounter = 5,
      orderPendingCounter = Map.empty,
      HighLowVarianceMultiplier = 1, NoRebalance = True, RebalanceFilter = 0, beta = 0,
      DriftFilterNeg = 0, DriftFilterPos = 0, DDriftFilterNeg = 0, DDriftFilterPos = 0,
      executor = emptyExecutor\<rparr>"

text \<open>
  The scenario of the trailing stop: two tiers, a long entered at \<open>100\<close>, the watermark
  at \<open>103\<close>.
\<close>

definition tierExample :: Strategy where
  "tierExample =
     initStrategy\<lparr>buyPrice := 100, highestPrice := 103,
                  TrailingActivationRatio := [0.01, 0.03],
                  TrailingCallbackRate := [0.002, 0.01]\<rparr>"

text \<open>
  A bar around \<open>100\<close>: last price \<open>100.5\<close>, ATR and both deviations \<open>1\<close>, a rising drift
  on the strategy's interval, a falling drift on the one-minute interval, and a quote
  balance of \<open>1000\<close>.
\<close>

definition exampleBar :: Bar where
  "exampleBar =
     \<lparr>kline_Open = 100, kline_Close = 101, kline_High = 101, kline_Low = 99.5,
      lastPrice = 100.5, source = 100, atr_Last = 1, stdevHigh_Last = 1, stdevLow_Last = 1,
      drift_Array = [1, 2], ddrift_Array = [1, 2], drift1m_Array = [2, 1],
      driftPred = 1, ddriftPred = 1, ewo_Array = [3, 1, 2, 5], trend_beta = 0,
      baseAvailable = 0, quoteAvailable = 1000, baseTotal = 0, quoteTotal = 1000,
      baseOk = True, quoteOk = True\<rparr>"

text \<open>
  A resting buy order at \<open>100\<close>, submitted at bar \<open>3\<close>; the strategy is at bar \<open>20\<close> with a
  budget of \<open>10\<close> bars, so the order's age is \<open>17\<close>.
\<close>

definition restingBuy :: Order where
  "restingBuy = mkOrder 7 SideTypeBuy 100 1 ''long''"

definition staleBuy :: Strategy where
  "staleBuy =
     initStrategy\<lparr>minutesCounter := 20,
                  orderPendingCounter := [7 \<mapsto> 3],
                  executor := emptyExecutor\<lparr>activeMakerOrders := [restingBuy],
                                            orderStore := [restingBuy]\<rparr>\<rparr>"

text \<open>The same resting order seen at bar \<open>5\<close>, two bars after its submission.\<close>

definition youngBuy :: Strategy where
  "youngBuy = staleBuy\<lparr>minutesCounter := 5\<rparr>"

text \<open>A fill of the resting order: one unit bought at \<open>102\<close>.\<close>

definition fillAt102 :: Trade where
  "fillAt102 =
     \<lparr>trade_OrderID = 7, trade_Side = SideTypeBuy, trade_Price = 102, trade_Quantity = 1\<rparr>"

text \<open>
  A long of one unit entered at \<open>100\<close>, and the same long after the price has been at
  \<open>105\<close> while a second buy order (the resting one) is still open.
\<close>

definition openLong :: Strategy where
  "openLong =
     initStrategy\<lparr>position := \<lparr>Base = 1, Quote = - 100, AverageCost = 100\<rparr>,
                  shadow := \<lparr>Base = 1, Quote = - 100, AverageCost = 100\<rparr>,
                  buyPrice := 100, highestPrice := 100\<rparr>"


text \<open>A bar without an entry signal for elliottwave, with one unit of base balance.\<close>

definition quietBar :: Bar where
  "quietBar = exampleBar\<lparr>ewo_Array := [1, 1, 1, 1], baseAvailable := 1\<rparr>"

section \<open>The executor: retries and idempotent cancellation\<close>

lemma GracefulCancel_empty:
  "activeMakerOrders e = [] \<Longrightarrow>
     GracefulCancel ex e = (None, e\<lparr>requests := requests e @ [ReqGracefulCancel None]\<rparr>)"
  by (simp add: GracefulCancel_def GracefulCancelActiveOrderBook_def NumOfOrders_def)

lemma GracefulCancel_success_empties:
  "GracefulCancel ex e = (None, e1) \<Longrightarrow> activeMakerOrders e1 = []"
  by (auto simp: GracefulCancel_def GracefulCancelActiveOrderBook_def NumOfOrders_def
        ActiveOrderBook_GracefulCancel_def split: if_splits prod.splits option.splits)

lemma GracefulCancel_requests:
  "GracefulCancel ex e = (err, e1) \<Longrightarrow> requests e1 = requests e @ [ReqGracefulCancel err]"
  by (auto simp: GracefulCancel_def GracefulCancelActiveOrderBook_def NumOfOrders_def
        ActiveOrderBook_GracefulCancel_def split: if_splits prod.splits option.splits)

text \<open>
  C10. Two calls of \<^verbatim>\<open>GracefulCancel\<close> in succession: when the first returns nil it
  leaves the active order book empty, and the second returns nil at once; it issues no
  request to a collaborator (\<open>calls\<close> stays), pumps nothing and changes nothing but the
  history of calls.
\<close>

theorem GracefulCancel_twice:
  assumes "GracefulCancel ex e = (None, e1)"
  shows "activeMakerOrders e1 = []
         \<and> GracefulCancel ex e1
             = (None, e1\<lparr>requests := requests e1 @ [ReqGracefulCancel None]\<rparr>)
         \<and> calls (snd (GracefulCancel ex e1)) = calls e1
         \<and> processCount (snd (GracefulCancel ex e1)) = processCount e1"
proof -
  have empty: "activeMakerOrders e1 = []"
    using assms by (rule GracefulCancel_success_empties)
  then have "GracefulCancel ex e1
               = (None, e1\<lparr>requests := requests e1 @ [ReqGracefulCancel None]\<rparr>)"
    by (rule GracefulCancel_empty)
  with empty show ?thesis by simp
qed

theorem GracefulCancel_twice_witness:
  "GracefulCancel okExchange
       (emptyExecutor\<lparr>activeMakerOrders := [mkOrder 1 SideTypeBuy 100 1 ''long'']\<rparr>)
     = (None, emptyExecutor\<lparr>processCount := 1, calls := 1,
                             requests := [ReqGracefulCancel None]\<rparr>)
   \<and> GracefulCancel okExchange
       (emptyExecutor\<lparr>processCount := 1, calls := 1, requests := [ReqGracefulCancel None]\<rparr>)
     = (None, emptyExecutor\<lparr>processCount := 1, calls := 1,
                             requests := [ReqGracefulCancel None, ReqGracefulCancel None]\<rparr>)"
proof -
  have first: "GracefulCancel okExchange
       (emptyExecutor\<lparr>activeMakerOrders := [mkOrder 1 SideTypeBuy 100 1 ''long'']\<rparr>)
     = (None, emptyExecutor\<lparr>processCount := 1, calls := 1,
                             requests := [ReqGracefulCancel None]\<rparr>)"
    by (simp add: GracefulCancel_def GracefulCancelActiveOrderBook_def NumOfOrders_def
          ActiveOrderBook_GracefulCancel_def okExchange_def emptyExecutor_def)
  from GracefulCancel_twice [OF first] first show ?thesis
    by (simp add: emptyExecutor_def)
qed

lemma CancelOrders_retry_once:
  "CancelOrders ex e orders =
     (if Exchange_CancelOrders ex (calls e) orders = None
      then (None, e\<lparr>requests := requests e @ [ReqCancelOrders orders], calls := calls e + 1\<rparr>)
      else (Exchange_CancelOrders ex (calls e + 1) orders,
            e\<lparr>requests := requests e @ [ReqCancelOrders orders], calls := calls e + 2\<rparr>))"
  by (simp add: CancelOrders_def Let_def split: option.splits)

lemma SubmitOrders_calls:
  "calls (snd (SubmitOrders ex e os)) \<le> calls e + 2"
  by (simp add: SubmitOrders_def Let_def split: sum.splits prod.splits)


text \<open>
  C7. A batch of three orders: the exchange accepts the first and rejects the other two;
  on the retry of the two it accepts the second and rejects the third again. The order
  accepted by the retry (id \<open>2\<close>) is neither returned nor added to the order store or to
  the active order book: only the order of the first round (id \<open>1\<close>) is kept.
\<close>

theorem SubmitOrders_drops_retried_order:
  "SubmitOrders partialExchange emptyExecutor threeOrders =
     (([mkOrder 1 SideTypeBuy 100 1 ''long''],
       Some (MultiError (ExchangeError ''rejected'') (ExchangeError ''rejected again''))),
      \<lparr>activeMakerOrders = [mkOrder 1 SideTypeBuy 100 1 ''long''],
       orderStore = [mkOrder 1 SideTypeBuy 100 1 ''long''],
       processCount = 1, calls = 2, requests = [ReqSubmitOrders threeOrders]\<rparr>)"
  by (simp add: SubmitOrders_def partialExchange_def emptyExecutor_def Add_def mkOrder_def)

section \<open>Closing a position: the shrinking retry terminates\<close>






section \<open>The trailing stop scans the tiers from the last to the first\<close>

lemma scanTiers_Suc:
  "n < length (TrailingActivationRatio s) \<Longrightarrow>
     scanTiers s price isShort (Suc n) =
       (if activated s isShort n then Inr (retraced s price isShort n)
        else scanTiers s price isShort n)"
  by (simp add: activated_def retraced_def Let_def)

lemma scanTiers_spec:
  "n \<le> length (TrailingActivationRatio s) \<Longrightarrow>
     scanTiers s price isShort n =
       Inr (case filter (activated s isShort) (rev [0..<n]) of
              [] \<Rightarrow> False
            | i # _ \<Rightarrow> retraced s price isShort i)"
proof (induction n)
  case 0
  then show ?case by simp
next
  case (Suc n)
  then have lt: "n < length (TrailingActivationRatio s)" by simp
  from Suc have IH: "scanTiers s price isShort n =
       Inr (case filter (activated s isShort) (rev [0..<n]) of
              [] \<Rightarrow> False
            | i # _ \<Rightarrow> retraced s price isShort i)" by simp
  show ?case
    unfolding scanTiers_Suc [OF lt] IH by simp
qed

text \<open>
  C2, as the code has it. \<^verbatim>\<open>trailingCheck\<close> first moves the watermarks to the price;
  when every callback rate has its activation ratio it then returns what the claim
  describes: the answer of the highest tier whose activation ratio is exceeded, and false
  when there is none. An activation ratio is exceeded only by a strictly greater
  excursion. For the tiers \<open>[(0.01, 0.002), (0.03, 0.01)]\<close> and a long entered at
  \<open>100\<close>: with the watermark at \<open>103\<close> the excursion is exactly \<open>0.03\<close>, the second tier
  is not activated, the first decides, and the check returns true at \<open>102\<close> and at
  \<open>101.5\<close>; with the watermark at \<open>103.01\<close> the second tier decides, and the check
  returns false at \<open>102\<close> and true at \<open>101.5\<close>.
\<close>

theorem trailingCheck_tiers:
  assumes "length (TrailingCallbackRate s) \<le> length (TrailingActivationRatio s)"
  shows "(\<exists>s'. s' = s\<lparr>highestPrice := (if highestPrice s > 0 \<and> highestPrice s < price
                                        then price else highestPrice s),
                     lowestPrice := (if lowestPrice s > 0 \<and> lowestPrice s > price
                                       then price else lowestPrice s)\<rparr>
           \<and> trailingCheck s price direction
               = Inr (trailing_spec s' price (direction = ''short''), s'))
     \<and> trailingCheck tierExample 102 ''long'' = Inr (True, tierExample)
     \<and> trailingCheck tierExample 101.5 ''long'' = Inr (True, tierExample)
     \<and> trailingCheck (tierExample\<lparr>highestPrice := 103.01\<rparr>) 102 ''long''
           = Inr (False, tierExample\<lparr>highestPrice := 103.01\<rparr>)
     \<and> trailingCheck (tierExample\<lparr>highestPrice := 103.01\<rparr>) 101.5 ''long''
           = Inr (True, tierExample\<lparr>highestPrice := 103.01\<rparr>)"
proof -
  define s1 where "s1 = (if highestPrice s > 0 \<and> highestPrice s < price
                         then s\<lparr>highestPrice := price\<rparr> else s)"
  define s2 where "s2 = (if lowestPrice s1 > 0 \<and> lowestPrice s1 > price
                         then s1\<lparr>lowestPrice := price\<rparr> else s1)"
  have eq: "s2 = s\<lparr>highestPrice := (if highestPrice s > 0 \<and> highestPrice s < price
                                        then price else highestPrice s),
                     lowestPrice := (if lowestPrice s > 0 \<and> lowestPrice s > price
                                       then price else lowestPrice s)\<rparr>"
    by (simp add: s1_def s2_def)
  have len: "length (TrailingCallbackRate s2) \<le> length (TrailingActivationRatio s2)"
    using assms by (simp add: s1_def s2_def)
  have "trailingCheck s price direction
          = (case scanTiers s2 price (direction = ''short'') (length (TrailingCallbackRate s2)) of
               Inl err \<Rightarrow> Inl err | Inr fired \<Rightarrow> Inr (fired, s2))"
    unfolding trailingCheck_def Let_def s1_def s2_def ..
  also have "\<dots> = Inr (trailing_spec s2 price (direction = ''short''), s2)"
    unfolding scanTiers_spec [OF len] trailing_spec_def by simp
  finally have general: "\<exists>s'. s' = s\<lparr>highestPrice := (if highestPrice s > 0 \<and> highestPrice s < price
                                        then price else highestPrice s),
                     lowestPrice := (if lowestPrice s > 0 \<and> lowestPrice s > price
                                       then price else lowestPrice s)\<rparr>
           \<and> trailingCheck s price direction
               = Inr (trailing_spec s' price (direction = ''short''), s')"
    using eq by blast
  have at_103: "trailingCheck tierExample 102 ''long'' = Inr (True, tierExample)"
    "trailingCheck tierExample 101.5 ''long'' = Inr (True, tierExample)"
    by (simp_all add: trailingCheck_def tierExample_def initStrategy_def Let_def fdiv_gt_def
          numeral_2_eq_2)
  have above_103: "trailingCheck (tierExample\<lparr>highestPrice := 103.01\<rparr>) 102 ''long''
             = Inr (False, tierExample\<lparr>highestPrice := 103.01\<rparr>)"
    "trailingCheck (tierExample\<lparr>highestPrice := 103.01\<rparr>) 101.5 ''long''
             = Inr (True, tierExample\<lparr>highestPrice := 103.01\<rparr>)"
    by (simp_all add: trailingCheck_def tierExample_def initStrategy_def Let_def fdiv_gt_def
          numeral_2_eq_2)
  from general at_103 above_103 show ?thesis by blast
qed

theorem trailingCheck_tiers_witness:
  "length (TrailingCallbackRate tierExample) \<le> length (TrailingActivationRatio tierExample)
   \<and> trailingCheck (tierExample\<lparr>highestPrice := 103.01\<rparr>) 104 ''long''
       = Inr (trailing_spec (tierExample\<lparr>highestPrice := 104\<rparr>) 104 False,
              tierExample\<lparr>highestPrice := 104\<rparr>)"
proof -
  have len: "length (TrailingCallbackRate (tierExample\<lparr>highestPrice := 103.01\<rparr>))
               \<le> length (TrailingActivationRatio (tierExample\<lparr>highestPrice := 103.01\<rparr>))"
    by (simp add: tierExample_def)
  from trailingCheck_tiers [OF len, of 104 "''long''"]
  show ?thesis
    by (simp add: tierExample_def initStrategy_def)
qed

text \<open>
  The claim's own example fails: at price \<open>102\<close>, with the watermark at \<open>103\<close>, the check
  returns true, not false.
\<close>

theorem trailingCheck_at_102:
  "trailingCheck tierExample 102 ''long'' = Inr (True, tierExample)"
  by (simp add: trailingCheck_def tierExample_def initStrategy_def Let_def fdiv_gt_def
        numeral_2_eq_2)

section \<open>Stale orders\<close>

lemma drift_scanOrders_True:
  "drift_scanOrders s bar pricef os True = Inr b \<Longrightarrow> b"
  by (induction os) (auto split: if_splits SideType.splits)

lemma drift_scanOrders_aged:
  "drift_scanOrders s bar pricef os toCancel = Inr b \<Longrightarrow> ord \<in> set os \<Longrightarrow>
   Status ord = OrderStatusNew \<or> Status ord = OrderStatusPartiallyFilled \<Longrightarrow>
   minutesCounter s - counterOf (orderPendingCounter s) (OrderID ord) > PendingMinutes s \<Longrightarrow>
   \<not> (Side ord = SideTypeBuy \<and> drift1m_Array bar ! 1 < drift1m_Array bar ! 0) \<Longrightarrow>
   \<not> (Side ord = SideTypeSell \<and> drift1m_Array bar ! 1 > drift1m_Array bar ! 0) \<Longrightarrow> b"
proof (induction os arbitrary: toCancel)
  case Nil
  then show ?case by simp
next
  case (Cons h rest)
  show ?case
  proof (cases "h = ord")
    case True
    with Cons.prems have "drift_scanOrders s bar pricef rest True = Inr b"
      by (auto split: if_splits SideType.splits)
    then show ?thesis by (rule drift_scanOrders_True)
  next
    case False
    with Cons.prems have in_rest: "ord \<in> set rest" by simp
    from Cons.prems(1) obtain tc where "drift_scanOrders s bar pricef rest tc = Inr b"
      by (auto split: if_splits SideType.splits)
    from Cons.IH [OF this in_rest Cons.prems(3-6)] show ?thesis .
  qed
qed

lemma deleteAll_None:
  "k \<in> OrderID ` set os \<Longrightarrow> deleteAll m os k = None"
  unfolding deleteAll_def
proof (induction os arbitrary: m rule: rev_induct)
  case Nil
  then show ?case by simp
next
  case (snoc x xs)
  then show ?case by (cases "k = OrderID x") auto
qed

lemma deleteAll_other:
  "k \<notin> OrderID ` set os \<Longrightarrow> deleteAll m os k = m k"
  unfolding deleteAll_def
  by (induction os arbitrary: m rule: rev_induct) auto

lemma drift_smartCancel_aged:
  assumes res: "drift_smartCancel ex bar s pricef atr = Inr (r, s')"
    and ord: "ord \<in> set (activeMakerOrders (executor s))"
    and st: "Status ord = OrderStatusNew \<or> Status ord = OrderStatusPartiallyFilled"
    and aged: "minutesCounter s - counterOf (orderPendingCounter s) (OrderID ord) > PendingMinutes s"
    and g1: "\<not> (Side ord = SideTypeBuy \<and> drift1m_Array bar ! 1 < drift1m_Array bar ! 0)"
    and g2: "\<not> (Side ord = SideTypeSell \<and> drift1m_Array bar ! 1 > drift1m_Array bar ! 0)"
  shows "\<exists>err. GracefulCancel ex (executor s) = (err, executor s') \<and> r = (0, err)
           \<and> requests (executor s') = requests (executor s) @ [ReqGracefulCancel err]
           \<and> (err = None \<longrightarrow>
                (\<forall>o' \<in> set (activeMakerOrders (executor s)).
                    orderPendingCounter s' (OrderID o') = None))"
proof -
  from ord have ne: "length (activeMakerOrders (executor s)) > 0" by auto
  from res ne obtain b where scan:
      "drift_scanOrders s bar pricef (activeMakerOrders (executor s)) False = Inr b"
    by (auto simp: drift_smartCancel_def Let_def split: sum.splits)
  from drift_scanOrders_aged [OF scan ord st aged g1 g2] have b by simp
  obtain err e' where gc: "GracefulCancel ex (executor s) = (err, e')"
    by (cases "GracefulCancel ex (executor s)")
  from res ne scan \<open>b\<close> gc have
    "r = (0, err)" "executor s' = e'"
    "err = None \<longrightarrow> orderPendingCounter s'
        = deleteAll (orderPendingCounter s) (activeMakerOrders (executor s))"
    by (auto simp: drift_smartCancel_def Let_def split: option.splits)
  with gc GracefulCancel_requests [OF gc] show ?thesis
    by (auto simp: deleteAll_None)
qed

lemma GracefulCancelOrder_requests:
  "GracefulCancelOrder ex e ord = (err, e1) \<Longrightarrow>
     requests e1 = requests e @ [ReqGracefulCancelOrder ord err]"
  by (auto simp: GracefulCancelOrder_def split: if_splits prod.splits option.splits)

lemma elliottwave_scan_step:
  assumes scan: "elliottwave_scanOrders ex bar pricef (h # rest) s left = Inr (n, s')"
  shows "\<exists>s1 left1. elliottwave_scanOrders ex bar pricef rest s1 left1 = Inr (n, s')
           \<and> minutesCounter s1 = minutesCounter s \<and> PendingMinutes s1 = PendingMinutes s
           \<and> (\<forall>k. k \<noteq> OrderID h \<longrightarrow> orderPendingCounter s1 k = orderPendingCounter s k)
           \<and> (\<exists>new. requests (executor s1) = requests (executor s) @ new
                  \<and> (\<forall>x \<in> set new. \<not> isEntry x))
           \<and> ((Status h = OrderStatusNew \<or> Status h = OrderStatusPartiallyFilled)
                \<and> minutesCounter s - counterOf (orderPendingCounter s) (OrderID h) \<ge> PendingMinutes s
               \<longrightarrow> (\<exists>err. requests (executor s1)
                             = requests (executor s) @ [ReqGracefulCancelOrder h err]
                       \<and> (err = None \<longrightarrow> orderPendingCounter s1 (OrderID h) = None)))"
proof (cases "Status h \<noteq> OrderStatusNew \<and> Status h \<noteq> OrderStatusPartiallyFilled")
  case True
  with scan have "elliottwave_scanOrders ex bar pricef rest s left = Inr (n, s')" by simp
  with True show ?thesis by (intro exI [of _ s] exI [of _ left]) auto
next
  case live: False
  define d :: "error + bool" where
    "d = (if minutesCounter s - counterOf (orderPendingCounter s) (OrderID h) \<ge> PendingMinutes s
          then Inr True
          else (case Side h of
                  SideTypeBuy \<Rightarrow> Inr (Price h + atr_Last bar * 2 \<le> pricef)
                | SideTypeSell \<Rightarrow> Inr (Price h - atr_Last bar * 2 \<ge> pricef)
                | SideTypeOther \<Rightarrow> Inl (Panic ''not supported side for the order'')))"
  obtain err e' where gc: "GracefulCancelOrder ex (executor s) h = (err, e')"
    by (cases "GracefulCancelOrder ex (executor s) h")
  have sub: "requests e' = requests (executor s) @ [ReqGracefulCancelOrder h err]"
    "\<forall>x \<in> set [ReqGracefulCancelOrder h err]. \<not> isEntry x"
    using gc by (simp_all add: GracefulCancelOrder_requests isEntry_def)
  have aged: "minutesCounter s - counterOf (orderPendingCounter s) (OrderID h) \<ge> PendingMinutes s
              \<Longrightarrow> d = Inr True"
    by (simp add: d_def)
  from scan live have unfolded:
    "(case d of
        Inl err \<Rightarrow> Inl err
      | Inr toCancel \<Rightarrow>
          if toCancel then
            (case GracefulCancelOrder ex (executor s) h of
               (None, e') \<Rightarrow>
                 elliottwave_scanOrders ex bar pricef rest
                   (s\<lparr>executor := e',
                      orderPendingCounter := (orderPendingCounter s)(OrderID h := None)\<rparr>) left
             | (Some err, e') \<Rightarrow>
                 elliottwave_scanOrders ex bar pricef rest (s\<lparr>executor := e'\<rparr>) left)
          else elliottwave_scanOrders ex bar pricef rest s (left + 1)) = Inr (n, s')"
    by (simp add: d_def)
  show ?thesis
  proof (cases d)
    case (Inl x)
    with unfolded show ?thesis by simp
  next
    case (Inr toCancel)
    show ?thesis
    proof (cases toCancel)
      case False
      with Inr unfolded
      have "elliottwave_scanOrders ex bar pricef rest s (left + 1) = Inr (n, s')" by simp
      moreover from False Inr aged
      have "\<not> minutesCounter s - counterOf (orderPendingCounter s) (OrderID h) \<ge> PendingMinutes s"
        by auto
      ultimately show ?thesis by (intro exI [of _ s] exI [of _ "left + 1"]) auto
    next
      case True
      show ?thesis
      proof (cases err)
        case None
        with True Inr unfolded gc
        have "elliottwave_scanOrders ex bar pricef rest
                (s\<lparr>executor := e',
                   orderPendingCounter := (orderPendingCounter s)(OrderID h := None)\<rparr>) left
              = Inr (n, s')" by simp
        with gc None sub show ?thesis
          by (intro exI [of _ "s\<lparr>executor := e',
                   orderPendingCounter := (orderPendingCounter s)(OrderID h := None)\<rparr>"]
                exI [of _ left]) auto
      next
        case (Some x)
        with True Inr unfolded gc
        have "elliottwave_scanOrders ex bar pricef rest (s\<lparr>executor := e'\<rparr>) left
              = Inr (n, s')" by simp
        with gc Some sub show ?thesis
          by (intro exI [of _ "s\<lparr>executor := e'\<rparr>"] exI [of _ left]) auto
      qed
    qed
  qed
qed

lemma elliottwave_scan_requests:
  "elliottwave_scanOrders ex bar pricef os s left = Inr (n, s') \<Longrightarrow>
     \<exists>new. requests (executor s') = requests (executor s) @ new
       \<and> (\<forall>x \<in> set new. \<not> isEntry x)"
proof (induction os arbitrary: s left)
  case Nil
  then show ?case by simp
next
  case (Cons h rest)
  from elliottwave_scan_step [OF Cons.prems] obtain s1 left1 new1 where
    "elliottwave_scanOrders ex bar pricef rest s1 left1 = Inr (n, s')"
    "requests (executor s1) = requests (executor s) @ new1"
    "\<forall>x \<in> set new1. \<not> isEntry x" by blast
  moreover from Cons.IH [OF this(1)] obtain new2 where
    "requests (executor s') = requests (executor s1) @ new2"
    "\<forall>x \<in> set new2. \<not> isEntry x" by blast
  ultimately show ?case by (intro exI [of _ "new1 @ new2"]) auto
qed

lemma elliottwave_scan_keeps:
  "elliottwave_scanOrders ex bar pricef os s left = Inr (n, s') \<Longrightarrow>
     k \<notin> OrderID ` set os \<Longrightarrow> orderPendingCounter s' k = orderPendingCounter s k"
proof (induction os arbitrary: s left)
  case Nil
  then show ?case by simp
next
  case (Cons h rest)
  from elliottwave_scan_step [OF Cons.prems(1)] obtain s1 left1 where
    rest: "elliottwave_scanOrders ex bar pricef rest s1 left1 = Inr (n, s')"
    and opc: "\<forall>k. k \<noteq> OrderID h \<longrightarrow> orderPendingCounter s1 k = orderPendingCounter s k"
    by blast
  from Cons.prems(2) have "k \<noteq> OrderID h" "k \<notin> OrderID ` set rest" by auto
  with Cons.IH [OF rest] opc show ?case by simp
qed

lemma elliottwave_scan_aged:
  "elliottwave_scanOrders ex bar pricef os s left = Inr (n, s') \<Longrightarrow> ord \<in> set os \<Longrightarrow>
   distinct (map OrderID os) \<Longrightarrow>
   Status ord = OrderStatusNew \<or> Status ord = OrderStatusPartiallyFilled \<Longrightarrow>
   minutesCounter s - counterOf (orderPendingCounter s) (OrderID ord) \<ge> PendingMinutes s \<Longrightarrow>
   \<exists>new err. requests (executor s') = requests (executor s) @ new
         \<and> ReqGracefulCancelOrder ord err \<in> set new
         \<and> (err = None \<longrightarrow> orderPendingCounter s' (OrderID ord) = None)"
proof (induction os arbitrary: s left)
  case Nil
  then show ?case by simp
next
  case (Cons h rest)
  from elliottwave_scan_step [OF Cons.prems(1)] obtain s1 left1 new1 where
    rest: "elliottwave_scanOrders ex bar pricef rest s1 left1 = Inr (n, s')"
    and mc: "minutesCounter s1 = minutesCounter s" "PendingMinutes s1 = PendingMinutes s"
    and opc: "\<forall>k. k \<noteq> OrderID h \<longrightarrow> orderPendingCounter s1 k = orderPendingCounter s k"
    and new1: "requests (executor s1) = requests (executor s) @ new1"
    and hd: "(Status h = OrderStatusNew \<or> Status h = OrderStatusPartiallyFilled)
                \<and> minutesCounter s - counterOf (orderPendingCounter s) (OrderID h) \<ge> PendingMinutes s
               \<longrightarrow> (\<exists>err. requests (executor s1)
                             = requests (executor s) @ [ReqGracefulCancelOrder h err]
                       \<and> (err = None \<longrightarrow> orderPendingCounter s1 (OrderID h) = None))"
    by blast
  show ?case
  proof (cases "h = ord")
    case True
    with hd Cons.prems obtain err where
      gc: "requests (executor s1) = requests (executor s) @ [ReqGracefulCancelOrder ord err]"
      and del: "err = None \<longrightarrow> orderPendingCounter s1 (OrderID ord) = None" by blast
    from elliottwave_scan_requests [OF rest] obtain new2 where
      "requests (executor s') = requests (executor s1) @ new2" by blast
    with gc have "requests (executor s')
        = requests (executor s) @ (ReqGracefulCancelOrder ord err # new2)" by simp
    moreover from True Cons.prems(3) have "OrderID ord \<notin> OrderID ` set rest" by simp
    with elliottwave_scan_keeps [OF rest]
    have "orderPendingCounter s' (OrderID ord) = orderPendingCounter s1 (OrderID ord)" by simp
    ultimately show ?thesis using del
      by (intro exI [of _ "ReqGracefulCancelOrder ord err # new2"] exI [of _ err]) simp
  next
    case False
    with Cons.prems have in_rest: "ord \<in> set rest" by simp
    then have "OrderID ord \<in> OrderID ` set rest" by (rule imageI)
    with Cons.prems(3) have "OrderID ord \<noteq> OrderID h" by auto
    with opc have "counterOf (orderPendingCounter s1) (OrderID ord)
                     = counterOf (orderPendingCounter s) (OrderID ord)"
      by (simp add: counterOf_def)
    with Cons.prems(5) mc have aged1:
      "minutesCounter s1 - counterOf (orderPendingCounter s1) (OrderID ord) \<ge> PendingMinutes s1"
      by simp
    from Cons.prems(3) have "distinct (map OrderID rest)" by simp
    from Cons.IH [OF rest in_rest this Cons.prems(4) aged1] obtain new2 err where
      "requests (executor s') = requests (executor s1) @ new2"
      "ReqGracefulCancelOrder ord err \<in> set new2"
      "err = None \<longrightarrow> orderPendingCounter s' (OrderID ord) = None" by blast
    with new1 show ?thesis
      by (intro exI [of _ "new1 @ new2"] exI [of _ err]) simp
  qed
qed

text \<open>
  C3, as the code has it. In elliottwave's \<^verbatim>\<open>smartCancel\<close> every outstanding order in
  status New or PartiallyFilled whose age has reached \<^verbatim>\<open>PendingMinutes\<close> is handed to
  \<^verbatim>\<open>GracefulCancelOrder\<close>, whatever the price, and its entry in the age map is deleted
  when the cancellation succeeds (the order ids of the ledger being distinct). In drift's
  \<^verbatim>\<open>smartCancel\<close> an order whose age exceeds \<^verbatim>\<open>PendingMinutes\<close> makes the strategy cancel
  all active orders, whatever the price, unless it is a buy order while the one-minute
  drift falls or a sell order while it rises; on success every entry of the age map for
  the outstanding orders is deleted.
\<close>

theorem smartCancel_aged:
  "(elliottwave_smartCancel ex bar s pricef = Inr (n, s1)
      \<and> ord \<in> set (activeMakerOrders (executor s))
      \<and> distinct (map OrderID (activeMakerOrders (executor s)))
      \<and> (Status ord = OrderStatusNew \<or> Status ord = OrderStatusPartiallyFilled)
      \<and> minutesCounter s - counterOf (orderPendingCounter s) (OrderID ord) \<ge> PendingMinutes s
    \<longrightarrow> (\<exists>new err. requests (executor s1) = requests (executor s) @ new
            \<and> ReqGracefulCancelOrder ord err \<in> set new
            \<and> (err = None \<longrightarrow> orderPendingCounter s1 (OrderID ord) = None)))
   \<and> (drift_smartCancel ex bar s pricef atr = Inr (r, s2)
      \<and> ord \<in> set (activeMakerOrders (executor s))
      \<and> (Status ord = OrderStatusNew \<or> Status ord = OrderStatusPartiallyFilled)
      \<and> minutesCounter s - counterOf (orderPendingCounter s) (OrderID ord) > PendingMinutes s
      \<and> \<not> (Side ord = SideTypeBuy \<and> drift1m_Array bar ! 1 < drift1m_Array bar ! 0)
      \<and> \<not> (Side ord = SideTypeSell \<and> drift1m_Array bar ! 1 > drift1m_Array bar ! 0)
    \<longrightarrow> (\<exists>err. GracefulCancel ex (executor s) = (err, executor s2) \<and> r = (0, err)
            \<and> requests (executor s2) = requests (executor s) @ [ReqGracefulCancel err]
            \<and> (err = None \<longrightarrow>
                 (\<forall>o' \<in> set (activeMakerOrders (executor s)).
                     orderPendingCounter s2 (OrderID o') = None))))"
proof (intro conjI impI)
  assume a: "elliottwave_smartCancel ex bar s pricef = Inr (n, s1)
      \<and> ord \<in> set (activeMakerOrders (executor s))
      \<and> distinct (map OrderID (activeMakerOrders (executor s)))
      \<and> (Status ord = OrderStatusNew \<or> Status ord = OrderStatusPartiallyFilled)
      \<and> minutesCounter s - counterOf (orderPendingCounter s) (OrderID ord) \<ge> PendingMinutes s"
  then have "length (activeMakerOrders (executor s)) > 0" by auto
  with a have "elliottwave_scanOrders ex bar pricef (activeMakerOrders (executor s)) s 0
                 = Inr (n, s1)"
    by (simp add: elliottwave_smartCancel_def Let_def)
  from elliottwave_scan_aged [OF this] a
  show "\<exists>new err. requests (executor s1) = requests (executor s) @ new
            \<and> ReqGracefulCancelOrder ord err \<in> set new
            \<and> (err = None \<longrightarrow> orderPendingCounter s1 (OrderID ord) = None)" by blast
next
  assume "drift_smartCancel ex bar s pricef atr = Inr (r, s2)
      \<and> ord \<in> set (activeMakerOrders (executor s))
      \<and> (Status ord = OrderStatusNew \<or> Status ord = OrderStatusPartiallyFilled)
      \<and> minutesCounter s - counterOf (orderPendingCounter s) (OrderID ord) > PendingMinutes s
      \<and> \<not> (Side ord = SideTypeBuy \<and> drift1m_Array bar ! 1 < drift1m_Array bar ! 0)
      \<and> \<not> (Side ord = SideTypeSell \<and> drift1m_Array bar ! 1 > drift1m_Array bar ! 0)"
  then show "\<exists>err. GracefulCancel ex (executor s) = (err, executor s2) \<and> r = (0, err)
            \<and> requests (executor s2) = requests (executor s) @ [ReqGracefulCancel err]
            \<and> (err = None \<longrightarrow>
                 (\<forall>o' \<in> set (activeMakerOrders (executor s)).
                     orderPendingCounter s2 (OrderID o') = None))"
    using drift_smartCancel_aged [of ex bar s pricef atr r s2 ord] by blast
qed

theorem smartCancel_aged_witness:
  "(\<exists>n s1 new err.
       elliottwave_smartCancel okExchange exampleBar staleBuy 100.5 = Inr (n, s1)
       \<and> requests (executor s1) = requests (executor staleBuy) @ new
       \<and> ReqGracefulCancelOrder restingBuy err \<in> set new)
   \<and> (\<exists>r s2 err.
       drift_smartCancel okExchange (exampleBar\<lparr>drift1m_Array := [1, 2]\<rparr>) staleBuy 100.5 1
         = Inr (r, s2)
       \<and> GracefulCancel okExchange (executor staleBuy) = (err, executor s2) \<and> r = (0, err))"
proof -
  have ord: "restingBuy \<in> set (activeMakerOrders (executor staleBuy))"
    "distinct (map OrderID (activeMakerOrders (executor staleBuy)))"
    "Status restingBuy = OrderStatusNew \<or> Status restingBuy = OrderStatusPartiallyFilled"
    "minutesCounter staleBuy - counterOf (orderPendingCounter staleBuy) (OrderID restingBuy)
       > PendingMinutes staleBuy"
    by (simp_all add: staleBuy_def initStrategy_def emptyExecutor_def restingBuy_def
          mkOrder_def counterOf_def)
  have side: "\<not> (Side restingBuy = SideTypeBuy
                  \<and> drift1m_Array (exampleBar\<lparr>drift1m_Array := [1, 2]\<rparr>) ! 1
                      < drift1m_Array (exampleBar\<lparr>drift1m_Array := [1, 2]\<rparr>) ! 0)"
    "\<not> (Side restingBuy = SideTypeSell
          \<and> drift1m_Array (exampleBar\<lparr>drift1m_Array := [1, 2]\<rparr>) ! 1
              > drift1m_Array (exampleBar\<lparr>drift1m_Array := [1, 2]\<rparr>) ! 0)"
    by (simp_all add: restingBuy_def mkOrder_def)
  have "\<exists>n s1. elliottwave_smartCancel okExchange exampleBar staleBuy 100.5 = Inr (n, s1)"
    by (simp add: elliottwave_smartCancel_def staleBuy_def initStrategy_def emptyExecutor_def
          restingBuy_def mkOrder_def exampleBar_def counterOf_def Let_def
          GracefulCancelOrder_def ActiveOrderBook_Cancel_def NumOfOrders_def okExchange_def)
  then obtain n s1 where
    e: "elliottwave_smartCancel okExchange exampleBar staleBuy 100.5 = Inr (n, s1)" by blast
  have "\<exists>r s2. drift_smartCancel okExchange (exampleBar\<lparr>drift1m_Array := [1, 2]\<rparr>)
                  staleBuy 100.5 1 = Inr (r, s2)"
    by (simp add: drift_smartCancel_def staleBuy_def initStrategy_def emptyExecutor_def
          restingBuy_def mkOrder_def exampleBar_def counterOf_def Let_def
          GracefulCancel_def GracefulCancelActiveOrderBook_def
          ActiveOrderBook_GracefulCancel_def NumOfOrders_def okExchange_def)
  then obtain r s2 where
    d: "drift_smartCancel okExchange (exampleBar\<lparr>drift1m_Array := [1, 2]\<rparr>)
          staleBuy 100.5 1 = Inr (r, s2)" by blast
  from ord(4) have ge:
    "minutesCounter staleBuy - counterOf (orderPendingCounter staleBuy) (OrderID restingBuy)
       \<ge> PendingMinutes staleBuy" by simp
  from smartCancel_aged [of okExchange exampleBar staleBuy "100.5" n s1 restingBuy] e ord ge
  have first: "\<exists>new err. requests (executor s1) = requests (executor staleBuy) @ new
                 \<and> ReqGracefulCancelOrder restingBuy err \<in> set new"
    by blast
  from smartCancel_aged [of okExchange "exampleBar\<lparr>drift1m_Array := [1, 2]\<rparr>" staleBuy
      "100.5" _ _ restingBuy 1 r s2] d ord side
  have second: "\<exists>err. GracefulCancel okExchange (executor staleBuy) = (err, executor s2)
                  \<and> r = (0, err)"
    by blast
  from e d first second show ?thesis by blast
qed

text \<open>
  The claim as stated fails for drift: a buy order at \<open>100\<close> whose age (\<open>17\<close> bars) exceeds
  the budget (\<open>10\<close>) is not cancelled while the one-minute drift falls. \<^verbatim>\<open>smartCancel\<close>
  reports one pending order and leaves the state as it was.
\<close>

theorem drift_smartCancel_keeps_aged_buy:
  "drift_smartCancel okExchange exampleBar staleBuy 100.5 1 = Inr ((1, None), staleBuy)"
  by (simp add: drift_smartCancel_def staleBuy_def initStrategy_def emptyExecutor_def
        restingBuy_def mkOrder_def exampleBar_def counterOf_def Let_def)

section \<open>Exit conditions\<close>

lemma ClosePosition_loop_accepted:
  "\<not> IsDustQuantity m (Quantity order) price \<Longrightarrow>
   snd (fst (SubmitOrders ex e [order])) = None \<Longrightarrow>
     ClosePosition_loop ex m delta price order e = Some (None, snd (SubmitOrders ex e [order]))"
  by (subst ClosePosition_loop.simps) (simp add: Let_def)

lemma trailingCheck_keeps_prices:
  "trailingCheck s price direction = Inr (fired, s1) \<Longrightarrow>
     buyPrice s1 = buyPrice s \<and> sellPrice s1 = sellPrice s"
  by (auto simp: trailingCheck_def Let_def split: sum.splits if_splits)

lemma drift_klineHandler1m_exits_guarded:
  "drift_klineHandler1m_exits s stoploss lowf highf = Inr ((exitShort, exitLong), s1) \<Longrightarrow>
     (exitShort \<longrightarrow> sellPrice s > 0) \<and> (exitLong \<longrightarrow> buyPrice s > 0)"
  by (auto simp: drift_klineHandler1m_exits_def split: sum.splits if_splits
        dest: trailingCheck_keeps_prices)

lemma drift_klineHandler_exits_guarded:
  "drift_klineHandler_exits s stoploss sc lc lowf highf pricef
       = Inr ((exitShort, exitLong), s1) \<Longrightarrow>
     (exitShort \<longrightarrow> sellPrice s > 0) \<and> (exitLong \<longrightarrow> buyPrice s > 0)"
  by (auto simp: drift_klineHandler_exits_def split: sum.splits if_splits
        dest: trailingCheck_keeps_prices)

lemma elliottwave_klineHandler1m_exits_guarded:
  "elliottwave_klineHandler1m_exits s stoploss atr lowf highf
       = Inr ((exitShort, exitLong), s1) \<Longrightarrow>
     (exitShort \<longrightarrow> sellPrice s > 0) \<and> (exitLong \<longrightarrow> buyPrice s > 0)"
  by (auto simp: elliottwave_klineHandler1m_exits_def split: sum.splits if_splits
        dest: trailingCheck_keeps_prices)

text \<open>
  C4. The three handlers above evaluate their exit rules only behind the guard on the
  reference price. Elliottwave's \<^verbatim>\<open>klineHandler\<close> writes the same rules without the
  parentheses, so the guard covers the stop-loss alone: with \<^verbatim>\<open>sellPrice = 0\<close> the
  ATR rule \<^verbatim>\<open>sellPrice + atr <= highf\<close> holds whenever the ATR is at most the price.
  With no position and no reference price (ATR \<open>1\<close>, prices near \<open>100\<close>) the short exit
  condition holds and the handler takes the exit path; with a long entered at \<open>100\<close>,
  no short, and a bar on which no exit rule of the long holds, the handler closes the
  long with a market order.
\<close>

theorem elliottwave_klineHandler_exits_unguarded:
  "elliottwave_klineHandler_exits initStrategy 0.05 1 False False 99.5 100.5
     = Inr ((True, False), initStrategy)
   \<and> map_option (map_sum id (requests \<circ> executor))
         (elliottwave_klineHandler okExchange basePosition quietBar initStrategy)
       = Some (Inr [ReqGracefulCancel None])
   \<and> map_option (map_sum id (requests \<circ> executor))
         (elliottwave_klineHandler okExchange basePosition quietBar openLong)
       = Some (Inr [ReqGracefulCancel None,
            ReqSubmitOrders [\<lparr>Side = SideTypeSell, Type = OrderTypeMarket, Price = 0,
                              Quantity = 1, Tag = ''close''\<rparr>]])"
proof (intro conjI)
  show "elliottwave_klineHandler_exits initStrategy 0.05 1 False False 99.5 100.5
     = Inr ((True, False), initStrategy)"
    by (simp add: elliottwave_klineHandler_exits_def initStrategy_def trailingCheck_def Let_def)
  show "map_option (map_sum id (requests \<circ> executor))
         (elliottwave_klineHandler okExchange basePosition quietBar initStrategy)
       = Some (Inr [ReqGracefulCancel None])"
    by (simp add: elliottwave_klineHandler_def elliottwave_smartCancel_def
        elliottwave_klineHandler_exits_def elliottwave_ClosePosition_def elliottwave_enter_def
        elliottwave_conditions_def
        trailingCheck_def quietBar_def exampleBar_def initStrategy_def emptyExecutor_def
        basePosition_def flatPosition_def GracefulCancel_def GracefulCancelActiveOrderBook_def
        NumOfOrders_def Let_def)
  show "map_option (map_sum id (requests \<circ> executor))
         (elliottwave_klineHandler okExchange basePosition quietBar openLong)
       = Some (Inr [ReqGracefulCancel None,
            ReqSubmitOrders [\<lparr>Side = SideTypeSell, Type = OrderTypeMarket, Price = 0,
                              Quantity = 1, Tag = ''close''\<rparr>]])"
    by (simp add: elliottwave_klineHandler_def elliottwave_smartCancel_def
        elliottwave_klineHandler_exits_def elliottwave_ClosePosition_def elliottwave_enter_def
        elliottwave_conditions_def
        clampCloseOrder_def trailingCheck_def
        quietBar_def exampleBar_def openLong_def initStrategy_def emptyExecutor_def
        basePosition_def okExchange_def
        GracefulCancel_def GracefulCancelActiveOrderBook_def NumOfOrders_def
        SubmitOrders_def Add_def IsDustQuantity_def Let_def
        ClosePosition_loop_accepted)
qed

section \<open>Fills and watermarks\<close>











text \<open>
  C8. The age map keeps entries of orders that are no longer outstanding. Neither fill
  handler touches the map: after the fill of order \<open>7\<close> its entry (bar \<open>3\<close>) is still
  there. And the cancellation that precedes an entry does not delete either: drift's
  entry block cancels order \<open>7\<close>, places order \<open>1\<close>, and the map holds both entries
  while the ledger holds order \<open>1\<close> alone.
\<close>

theorem orderPendingCounter_leaks:
  "map_sum id (\<lambda>s. orderPendingCounter s 7) (drift_OnTrade basePosition staleBuy fillAt102)
     = Inr (Some 3)
   \<and> orderPendingCounter (elliottwave_OnTrade basePosition staleBuy fillAt102) 7 = Some 3
   \<and> map_sum id (\<lambda>s. (map OrderID (activeMakerOrders (executor s)),
                        orderPendingCounter s 7, orderPendingCounter s 1))
        (drift_openLong okExchange exampleBar youngBuy)
     = Inr ([1], Some 3, Some 5)"
  by (simp add: drift_OnTrade_def elliottwave_OnTrade_def drift_openLong_def submitEntry_def
        youngBuy_def staleBuy_def initStrategy_def emptyExecutor_def
        restingBuy_def mkOrder_def basePosition_def flatPosition_def fillAt102_def
        setLong_def setShort_def resetPrices_def exampleBar_def okExchange_def
        GracefulCancel_def GracefulCancelActiveOrderBook_def ActiveOrderBook_GracefulCancel_def
        NumOfOrders_def SubmitOrders_def Add_def IsDustQuantity_def Let_def)

section \<open>Entries follow a cancellation of all orders\<close>






















lemma cancel_not_entry: "\<not> isEntry (ReqGracefulCancel err)"
  by (simp add: isEntry_def)








end
